theory Spec2Isabelle
  imports Complex_Main
begin

section \<open>Structural audit reports of the kinase reliability pilot\<close>

text \<open>
  A shallow embedding of \<^verbatim>\<open>generate_sar.py\<close> and of the calibration report of
  \<^verbatim>\<open>compile_reports.py\<close>. Python floats are modelled as \<^typ>\<open>real\<close>: the values are
  taken finite and the arithmetic exact, so \<^verbatim>\<open>nan\<close> and the infinities are not values of
  the model. Python dictionaries with a fixed set of keys are records; the dictionary that
  \<^verbatim>\<open>validate_sar\<close> inspects for missing keys is a map to JSON values.
\<close>

subsection \<open>Formatted strings\<close>

text \<open>
  An f-string is kept as the list of its pieces: literal text, and numbers with the
  precision they are printed with (\<^verbatim>\<open>:.1f\<close>, \<^verbatim>\<open>:.2f\<close>). Rendering the digits is left
  to the reader of the pieces.
\<close>

datatype piece = Txt string | Fix1 real | Fix2 real

type_synonym fstring = "piece list"

definition angstrom :: string where
  \<comment> \<open>U+00C5 in UTF-8\<close>
  "angstrom = [CHR 0xC3, CHR 0x85]"

subsection \<open>Confidence bands and the expected error range\<close>

record confidence =
  plddt_bin :: string
  pae_bin :: string
  overall_confidence :: string

record error_range =
  rmsd_min :: real
  rmsd_max :: real
  rationale :: string

record failure_taxonomy =
  fclass :: string
  description :: fstring

definition classify_confidence :: "real \<Rightarrow> real \<Rightarrow> confidence" where
  "classify_confidence plddt_mean pae_mean =
     (let plddt_b = (if plddt_mean > 90 then ''high''
                     else if plddt_mean > 70 then ''medium''
                     else ''low'');
          pae_b = (if pae_mean < 5 then ''high''
                   else if pae_mean < 10 then ''medium''
                   else ''low'');
          overall = (if plddt_b = ''high'' \<and> pae_b = ''high'' then ''high''
                     else if plddt_b = ''low'' \<or> pae_b = ''low'' then ''low''
                     else ''medium'')
      in \<lparr>plddt_bin = plddt_b, pae_bin = pae_b, overall_confidence = overall\<rparr>)"

definition determine_expected_error_range :: "confidence \<Rightarrow> error_range" where
  "determine_expected_error_range conf =
     (let overall = overall_confidence conf in
      if overall = ''high'' then
        \<lparr>rmsd_min = 0.5, rmsd_max = 2.0,
         rationale = ''High confidence (pLDDT>90, PAE<5) suggests low expected error''\<rparr>
      else if overall = ''medium'' then
        \<lparr>rmsd_min = 1.5, rmsd_max = 4.0,
         rationale = ''Medium confidence suggests moderate expected error range''\<rparr>
      else
        \<lparr>rmsd_min = 3.0, rmsd_max = 8.0,
         rationale = ''Low confidence (pLDDT<70 or PAE>10) suggests high expected error''\<rparr>)"

subsection \<open>Failure taxonomy and decision gate\<close>

text \<open>
  The ligand-pocket deviation is a number or the string \<^verbatim>\<open>"N/A"\<close>; \<open>None\<close> stands for
  every value that fails \<^verbatim>\<open>isinstance(rmsd_ligand, (int, float))\<close>.
\<close>

definition classify_failure ::
  "real \<Rightarrow> real option \<Rightarrow> real \<Rightarrow> real \<Rightarrow> error_range \<Rightarrow> bool \<Rightarrow> failure_taxonomy" where
  "classify_failure rmsd_global rmsd_ligand plddt_mean pae_mean expected_range ligand_present =
     (let rmsd_mx = rmsd_max expected_range in
      if rmsd_global \<le> rmsd_mx then
        \<lparr>fclass = ''N/A'',
         description = [Txt ''Prediction within expected error range (RMSD='', Fix2 rmsd_global,
                        Txt (angstrom @ '' <= ''), Fix2 rmsd_mx, Txt (angstrom @ '')'')]\<rparr>
      else if plddt_mean > 90 \<and> pae_mean < 5 \<and> rmsd_global > rmsd_mx * 1.5 then
        \<lparr>fclass = ''Class A'',
         description = [Txt ''Overconfidence artifact: High model confidence (pLDDT='',
                        Fix1 plddt_mean, Txt '', PAE='', Fix1 pae_mean, Txt '') but RMSD='',
                        Fix2 rmsd_global, Txt (angstrom @ '' exceeds expected range'')]\<rparr>
      else if ligand_present \<and> rmsd_ligand \<noteq> None \<and> the rmsd_ligand > rmsd_global * 1.5 then
        \<lparr>fclass = ''Class B'',
         description = [Txt ''Ligand pose failure: Ligand pocket RMSD ('', Fix2 (the rmsd_ligand),
                        Txt (angstrom @ '') significantly exceeds global RMSD (''),
                        Fix2 rmsd_global, Txt (angstrom @ '')'')]\<rparr>
      else if rmsd_global > 10.0 then
        \<lparr>fclass = ''Class C'',
         description = [Txt ''Potential symmetry/assembly failure: Extremely high RMSD ('',
                        Fix2 rmsd_global,
                        Txt (angstrom @ '') suggests structural misalignment'')]\<rparr>
      else
        \<lparr>fclass = ''Unknown'',
         description = [Txt ''Unmapped failure mode: RMSD='', Fix2 rmsd_global,
                        Txt (angstrom @ '' exceeds expected range but doesn'' @ [CHR 0x27]
                             @ ''t match known failure patterns'')]\<rparr>)"

definition determine_decision_gate ::
  "real \<Rightarrow> error_range \<Rightarrow> string \<Rightarrow> confidence \<Rightarrow> string" where
  "determine_decision_gate rmsd_global expected_range failure_class conf =
     (let rmsd_mx = rmsd_max expected_range in
      if rmsd_global \<le> rmsd_mx then ''ACCEPT''
      else if failure_class \<in> set [''Class A'', ''Class C''] \<or> rmsd_global > rmsd_mx * 2
        then ''REJECT''
      else ''REVIEW'')"

definition generate_recommended_action :: "string \<Rightarrow> failure_taxonomy \<Rightarrow> string \<Rightarrow> fstring" where
  "generate_recommended_action decision_gate taxonomy pdb_id =
     (if decision_gate = ''ACCEPT'' then
        [Txt (''Structure '' @ pdb_id
              @ '' passes quality criteria. Proceed with downstream analysis.'')]
      else if decision_gate = ''REVIEW'' then
        (if fclass taxonomy = ''Class B'' then
           [Txt (''Manual review recommended for '' @ pdb_id
                 @ '': Ligand binding pose shows elevated error. Verify active site geometry and ligand interactions.'')]
         else if fclass taxonomy = ''Unknown'' then
           [Txt (''Manual review required for '' @ pdb_id
                 @ '': Elevated error detected but failure mode unclear. Expert structural analysis needed.'')]
         else
           Txt (''Manual review recommended for '' @ pdb_id @ '': '') # description taxonomy)
      else
        (if fclass taxonomy = ''Class A'' then
           [Txt (''Reject '' @ pdb_id
                 @ '': Overconfidence artifact detected. Model confidence metrics unreliable for this target. Consider alternative modeling approaches.'')]
         else if fclass taxonomy = ''Class C'' then
           [Txt (''Reject '' @ pdb_id
                 @ '': Potential symmetry/assembly failure. Verify oligomeric state and symmetry operators before use.'')]
         else
           [Txt (''Reject '' @ pdb_id
                 @ '': Error exceeds acceptable thresholds. Do not use for downstream analysis without significant refinement.'')]))"

subsection \<open>Validation of a report\<close>

text \<open>
  \<^verbatim>\<open>validate_sar\<close> receives the report as a dictionary and asks which keys are present,
  so here the report is a map from keys to JSON values. An exception is a value of
  \<open>py_error\<close>; \<open>OtherError\<close> stands for the exceptions of the file layer
  (\<^verbatim>\<open>FileNotFoundError\<close>, a JSON decoding error, ...).
\<close>

datatype json = JNull | JBool bool | JNum real | JStr string | JArr "json list"
  | JObj "string \<Rightarrow> json option"

datatype py_error = SARValidationError string | KeyError string | TypeError | NumpyError
  | NanUnmodelled | OtherError string

fun join :: "string \<Rightarrow> string list \<Rightarrow> string" where
  "join sep [] = []"
| "join sep [x] = x"
| "join sep (x # y # ys) = x @ sep @ join sep (y # ys)"

fun substring :: "string \<Rightarrow> string \<Rightarrow> bool" where
  "substring p [] = (p = [])"
| "substring p (c # cs) = (take (length p) (c # cs) = p \<or> substring p cs)"

definition absent :: "(string \<Rightarrow> json option) \<Rightarrow> string \<Rightarrow> bool" where
  \<comment> \<open>\<^verbatim>\<open>field not in d or d[field] is None\<close>\<close>
  "absent d field = (d field = None \<or> d field = Some JNull)"

fun subfield_missing :: "json \<Rightarrow> string \<Rightarrow> py_error + bool" where
  \<comment> \<open>\<^verbatim>\<open>subfield not in err_range or err_range[subfield] is None\<close>, for each type of
      \<^verbatim>\<open>err_range\<close>: key lookup in a dictionary, substring test on a string, membership
      in a list (indexing either by a string raises), no \<^verbatim>\<open>in\<close> on numbers.\<close>
  "subfield_missing (JObj d) subfield = Inr (absent d subfield)"
| "subfield_missing (JStr s) subfield = (if substring subfield s then Inl TypeError else Inr True)"
| "subfield_missing (JArr xs) subfield =
     (if JStr subfield \<in> set xs then Inl TypeError else Inr True)"
| "subfield_missing (JNum x) subfield = Inl TypeError"
| "subfield_missing (JBool b) subfield = Inl TypeError"
| "subfield_missing JNull subfield = Inl TypeError"

fun check_subfields :: "json \<Rightarrow> string list \<Rightarrow> py_error + string list" where
  "check_subfields err_range [] = Inr []"
| "check_subfields err_range (subfield # rest) =
     (case subfield_missing err_range subfield of
        Inl e \<Rightarrow> Inl e
      | Inr b \<Rightarrow>
          (case check_subfields err_range rest of
             Inl e \<Rightarrow> Inl e
           | Inr ms \<Rightarrow> Inr ((if b then [''expected_error_range.'' @ subfield] else []) @ ms)))"

definition required_fields :: "string list" where
  "required_fields = [''expected_error_range'', ''recommended_action'', ''decision_gate'']"

definition missing_fields :: "(string \<Rightarrow> json option) \<Rightarrow> py_error + string list" where
  \<comment> \<open>the list \<^verbatim>\<open>missing_fields\<close> as it stands before the two final tests of
      \<^verbatim>\<open>validate_sar\<close>\<close>
  "missing_fields sar =
     (let missing = filter (absent sar) required_fields in
      case
        (if \<not> absent sar ''expected_error_range''
         then check_subfields (the (sar ''expected_error_range''))
                [''rmsd_min'', ''rmsd_max'', ''rationale'']
         else Inr [])
      of
        Inl e \<Rightarrow> Inl e
      | Inr sub \<Rightarrow>
          Inr (missing @ sub @
               (if \<not> absent sar ''decision_gate''
                   \<and> the (sar ''decision_gate'') \<notin> set (map JStr [''ACCEPT'', ''REVIEW'', ''REJECT''])
                then [''decision_gate (invalid value)''] else [])))"

definition validate_sar :: "(string \<Rightarrow> json option) \<Rightarrow> bool \<Rightarrow> py_error + string list" where
  \<comment> \<open>returns the lines written to the error stream, or the exception raised\<close>
  "validate_sar sar strict_mode =
     (case missing_fields sar of
        Inl e \<Rightarrow> Inl e
      | Inr missing \<Rightarrow>
          if missing \<noteq> [] \<and> strict_mode then
            Inl (SARValidationError
                  (''ERROR_SAR_INCOMPLETE: Missing required fields: '' @ join '', '' missing))
          else if missing \<noteq> [] then
            Inr [''WARNING: SAR validation failed: Missing fields: '' @ join '', '' missing]
          else Inr [])"

subsection \<open>Building a report\<close>

text \<open>
  \<^verbatim>\<open>generate_sar\<close> reads the clock and draws from numpy's global random generator. Both
  are inputs of the model: the clock as the text \<^verbatim>\<open>datetime.utcnow().isoformat()\<close> returns,
  the generator as the sequence of its draws from the unit interval and the number of
  draws made so far, so that \<^verbatim>\<open>np.random.uniform(low, high)\<close> is
  \<open>low + (high - low) * u\<close> for the next draw \<open>u\<close>.
\<close>

record rng =
  draws :: "nat \<Rightarrow> real"
  drawn :: nat

definition uniform :: "real \<Rightarrow> real \<Rightarrow> rng \<Rightarrow> real \<times> rng" where
  "uniform low high g = (low + (high - low) * draws g (drawn g), g\<lparr>drawn := drawn g + 1\<rparr>)"

definition np_mean :: "real list \<Rightarrow> real" where
  \<comment> \<open>of a non-empty array; numpy gives \<^verbatim>\<open>nan\<close> for an empty one\<close>
  "np_mean xs = sum_list xs / real (length xs)"

definition np_std :: "real list \<Rightarrow> real" where
  \<comment> \<open>\<^verbatim>\<open>ddof=0\<close>: the population standard deviation\<close>
  "np_std xs = sqrt (np_mean (map (\<lambda>x. (x - np_mean xs)\<^sup>2) xs))"

definition np_min :: "real list \<Rightarrow> real" where
  "np_min xs = Min (set xs)"

definition np_max :: "real list \<Rightarrow> real" where
  "np_max xs = Max (set xs)"

definition np_median :: "real list \<Rightarrow> real" where
  "np_median xs =
     (let s = sort xs; n = length s in
      if odd n then s ! (n div 2) else (s ! (n div 2 - 1) + s ! (n div 2)) / 2)"

definition py_round :: "real \<Rightarrow> nat \<Rightarrow> real" where
  \<comment> \<open>\<^verbatim>\<open>round(x, ndigits)\<close>, ties to the even neighbour\<close>
  "py_round x ndigits =
     (let y = x * 10 ^ ndigits; f = \<lfloor>y\<rfloor>;
          k = (if y - of_int f < 1 / 2 then f
               else if y - of_int f > 1 / 2 then f + 1
               else if even f then f else f + 1)
      in of_int k / 10 ^ ndigits)"

type_synonym point = "real \<times> real \<times> real"

definition sq_dist :: "point \<Rightarrow> point \<Rightarrow> real" where
  "sq_dist p q =
     (case (p, q) of ((a, b, c), (x, y, z)) \<Rightarrow> (a - x)\<^sup>2 + (b - y)\<^sup>2 + (c - z)\<^sup>2)"

definition compute_rmsd_stub ::
  "point list \<Rightarrow> point list option \<Rightarrow> rng \<Rightarrow> py_error + (real \<times> rng)" where
  \<comment> \<open>coordinates are rows of three numbers; an empty list becomes an array of shape (0,),
      on which the subtraction or the sum along axis 1 raises\<close>
  "compute_rmsd_stub pred_coords gt_coords g =
     (case gt_coords of
        None \<Rightarrow> Inr (uniform 1.5 4.5 g)
      | Some gt \<Rightarrow>
          if pred_coords = [] \<or> gt = [] then Inl NumpyError
          else
            (let min_len = min (length pred_coords) (length gt);
                 pred = (if length pred_coords \<noteq> length gt then take min_len pred_coords
                         else pred_coords);
                 gt' = (if length pred_coords \<noteq> length gt then take min_len gt else gt)
             in Inr (sqrt (np_mean (map (\<lambda>(p, q). sq_dist p q) (zip pred gt'))), g)))"

record target =
  target_pdb_id :: string
  target_ligand_present :: "bool option"

record prediction =
  plddt :: "real list"
  pae :: "real list list"
  coordinates :: "point list"
  pred_model_version :: "string option"
  pred_seed :: "int option"
  pred_recycles :: "int option"
  pred_stub_output :: "bool option"

record metrics =
  rmsd_global :: real
  rmsd_ligand_pocket :: "real option"
  contact_map_overlap :: real
  plddt_mean :: real
  pae_mean :: real

record provenance =
  model_version :: string
  seed :: int
  recycles :: int
  stub_output :: bool

record sar =
  pdb_id :: string
  sar_version :: string
  timestamp :: string
  metrics :: metrics
  confidence_assessment :: confidence
  expected_error_range :: error_range
  recommended_action :: fstring
  decision_gate :: string
  failure_taxonomy :: failure_taxonomy
  provenance :: provenance

definition generate_sar ::
  "target \<Rightarrow> prediction \<Rightarrow> point list option \<Rightarrow> string \<Rightarrow> rng \<Rightarrow> py_error + (sar \<times> rng)" where
  \<comment> \<open>\<open>ground_truth\<close> is the coordinates of the ground truth, \<open>None\<close> when it is missing
      or empty; \<open>now\<close> is the clock. The means of empty arrays are \<^verbatim>\<open>nan\<close>, which the
      model does not have: that input is answered by \<open>NanUnmodelled\<close>.\<close>
  "generate_sar tgt pred ground_truth now g =
     (if plddt pred = [] \<or> concat (pae pred) = [] then Inl NanUnmodelled
      else
        (let ident = target_pdb_id tgt;
             plddt_m = np_mean (plddt pred);
             pae_m = np_mean (concat (pae pred))
         in case compute_rmsd_stub (coordinates pred) ground_truth g of
              Inl e \<Rightarrow> Inl e
            | Inr (rmsd_g, g1) \<Rightarrow>
                (let lig_present = (case target_ligand_present tgt of Some b \<Rightarrow> b | None \<Rightarrow> False);
                     (rmsd_lig, g2) =
                        (if lig_present
                         then (case uniform 0.8 1.5 g1 of (u, g') \<Rightarrow> (Some (rmsd_g * u), g'))
                         else (None, g1));
                     (overlap, g3) = uniform 0.6 0.95 g2;
                     conf = classify_confidence plddt_m pae_m;
                     range = determine_expected_error_range conf;
                     taxonomy = classify_failure rmsd_g rmsd_lig plddt_m pae_m range lig_present;
                     gate = determine_decision_gate rmsd_g range (fclass taxonomy) conf;
                     action = generate_recommended_action gate taxonomy ident
                 in Inr (\<lparr>pdb_id = ident,
                          sar_version = ''1.0'',
                          timestamp = now @ ''Z'',
                          metrics = \<lparr>rmsd_global = py_round rmsd_g 2,
                                     rmsd_ligand_pocket = map_option (\<lambda>x. py_round x 2) rmsd_lig,
                                     contact_map_overlap = py_round overlap 3,
                                     plddt_mean = py_round plddt_m 2,
                                     pae_mean = py_round pae_m 2\<rparr>,
                          confidence_assessment = conf,
                          expected_error_range = range,
                          recommended_action = action,
                          decision_gate = gate,
                          failure_taxonomy = taxonomy,
                          provenance =
                            \<lparr>model_version = (case pred_model_version pred of Some v \<Rightarrow> v
                                               | None \<Rightarrow> ''unknown''),
                             seed = (case pred_seed pred of Some v \<Rightarrow> v | None \<Rightarrow> - 1),
                             recycles = (case pred_recycles pred of Some v \<Rightarrow> v | None \<Rightarrow> - 1),
                             stub_output = (case pred_stub_output pred of Some v \<Rightarrow> v
                                            | None \<Rightarrow> False)\<rparr>\<rparr>, g3))))"

subsection \<open>The calibration report\<close>

record band_stats =
  n_samples :: nat
  rmsd_mean :: real
  rmsd_std :: real
  band_rmsd_min :: real
  band_rmsd_max :: real
  rmsd_median :: real

record calibration_report =
  version :: string
  generated :: string
  total_targets :: nat
  confidence_bins :: nat
  calibration_data :: "string \<Rightarrow> band_stats option"
  interpretation_text :: "(string \<times> string) list"

fun str_nat :: "nat \<Rightarrow> string" where
  "str_nat n =
     (if n < 10 then [char_of (48 + n)] else str_nat (n div 10) @ [char_of (48 + n mod 10)])"

fun group_by_confidence ::
  "sar list \<Rightarrow> (string \<Rightarrow> real list option) \<Rightarrow> py_error + (string \<Rightarrow> real list option)" where
  \<comment> \<open>the first loop: \<^verbatim>\<open>confidence_bins[conf].append(rmsd)\<close>\<close>
  "group_by_confidence [] bins = Inr bins"
| "group_by_confidence (s # rest) bins =
     (let conf = overall_confidence (confidence_assessment s);
          rmsd = rmsd_global (metrics s)
      in case bins conf of
           None \<Rightarrow> Inl (KeyError conf)
         | Some vs \<Rightarrow> group_by_confidence rest (bins(conf \<mapsto> vs @ [rmsd])))"

definition statistics :: "real list \<Rightarrow> band_stats" where
  "statistics rmsd_values =
     \<lparr>n_samples = length rmsd_values,
      rmsd_mean = np_mean rmsd_values,
      rmsd_std = np_std rmsd_values,
      band_rmsd_min = np_min rmsd_values,
      band_rmsd_max = np_max rmsd_values,
      rmsd_median = np_median rmsd_values\<rparr>"

fun bin_statistics ::
  "(string \<times> real list) list \<Rightarrow> (string \<Rightarrow> band_stats option) \<times> nat
     \<Rightarrow> (string \<Rightarrow> band_stats option) \<times> nat" where
  \<comment> \<open>the second loop, over the items of \<^verbatim>\<open>confidence_bins\<close>\<close>
  "bin_statistics [] acc = acc"
| "bin_statistics ((conf_level, rmsd_values) # rest) (calibration, bins_with_data) =
     (if length rmsd_values > 0
      then bin_statistics rest
             (calibration(conf_level \<mapsto> statistics rmsd_values), bins_with_data + 1)
      else bin_statistics rest (calibration, bins_with_data))"

definition band_names :: "string list" where
  \<comment> \<open>the keys of \<^verbatim>\<open>confidence_bins\<close>, in the order of insertion\<close>
  "band_names = [''high'', ''medium'', ''low'']"

definition generate_calibration_report ::
  "sar list \<Rightarrow> string \<Rightarrow> py_error + (calibration_report \<times> string list \<times> bool)" where
  \<comment> \<open>returns the report written, the lines of the error stream and the pass signal;
      \<open>now\<close> is the clock\<close>
  "generate_calibration_report sars now =
     (case group_by_confidence sars [''high'' \<mapsto> [], ''medium'' \<mapsto> [], ''low'' \<mapsto> []] of
        Inl e \<Rightarrow> Inl e
      | Inr bins \<Rightarrow>
          (case bin_statistics (map (\<lambda>k. (k, the (bins k))) band_names) (Map.empty, 0) of
             (calibration, bins_with_data) \<Rightarrow>
               Inr (\<lparr>version = ''1.0'',
                     generated = now @ ''Z'',
                     total_targets = length sars,
                     confidence_bins = bins_with_data,
                     calibration_data = calibration,
                     interpretation_text =
                       [(''high'', ''Expected RMSD < 2.0'' @ angstrom
                           @ '' - model highly confident and typically accurate''),
                        (''medium'', ''Expected RMSD 1.5-4.0'' @ angstrom
                           @ '' - model moderately confident with moderate accuracy''),
                        (''low'', ''Expected RMSD 3.0-8.0'' @ angstrom
                           @ '' - model uncertain with higher expected error'')]\<rparr>,
                    (if bins_with_data < 3
                     then [''WARNING: Calibration has only '' @ str_nat bins_with_data
                           @ '' confidence bins (< 3)'']
                     else []),
                    bins_with_data \<ge> 3)))"

subsection \<open>The report as a dictionary\<close>

text \<open>
  \<^verbatim>\<open>generate_sar\<close> returns a dictionary, which \<^verbatim>\<open>main\<close> hands to \<^verbatim>\<open>validate_sar\<close> and
  writes to a file. \<open>sar_dict\<close> is that dictionary for a report record. The f-strings are
  rendered here: a number with \<open>n\<close> decimals is the digits of its rounding to \<open>n\<close> decimals.
\<close>

definition fmt_fixed :: "nat \<Rightarrow> real \<Rightarrow> string" where
  \<comment> \<open>\<^verbatim>\<open>f"{x:.nf}"\<close>\<close>
  "fmt_fixed n x =
     (let k = nat \<lfloor>py_round \<bar>x\<bar> n * 10 ^ n\<rfloor>;
          frac = str_nat (k mod 10 ^ n)
      in (if x < 0 then ''-'' else []) @ str_nat (k div 10 ^ n)
         @ (if n = 0 then [] else ''.'' @ replicate (n - length frac) CHR ''0'' @ frac))"

fun render_piece :: "piece \<Rightarrow> string" where
  "render_piece (Txt t) = t"
| "render_piece (Fix1 x) = fmt_fixed 1 x"
| "render_piece (Fix2 x) = fmt_fixed 2 x"

definition render :: "fstring \<Rightarrow> string" where
  "render f = concat (map render_piece f)"

definition sar_dict :: "sar \<Rightarrow> string \<Rightarrow> json option" where
  "sar_dict s =
     [''pdb_id'' \<mapsto> JStr (pdb_id s),
      ''sar_version'' \<mapsto> JStr (sar_version s),
      ''timestamp'' \<mapsto> JStr (timestamp s),
      ''metrics'' \<mapsto>
        JObj [''rmsd_global'' \<mapsto> JNum (rmsd_global (metrics s)),
              ''rmsd_ligand_pocket'' \<mapsto>
                 (case rmsd_ligand_pocket (metrics s) of Some x \<Rightarrow> JNum x | None \<Rightarrow> JStr ''N/A''),
              ''contact_map_overlap'' \<mapsto> JNum (contact_map_overlap (metrics s)),
              ''plddt_mean'' \<mapsto> JNum (plddt_mean (metrics s)),
              ''pae_mean'' \<mapsto> JNum (pae_mean (metrics s))],
      ''confidence_assessment'' \<mapsto>
        JObj [''plddt_bin'' \<mapsto> JStr (plddt_bin (confidence_assessment s)),
              ''pae_bin'' \<mapsto> JStr (pae_bin (confidence_assessment s)),
              ''overall_confidence'' \<mapsto> JStr (overall_confidence (confidence_assessment s))],
      ''expected_error_range'' \<mapsto>
        JObj [''rmsd_min'' \<mapsto> JNum (rmsd_min (expected_error_range s)),
              ''rmsd_max'' \<mapsto> JNum (rmsd_max (expected_error_range s)),
              ''rationale'' \<mapsto> JStr (rationale (expected_error_range s))],
      ''recommended_action'' \<mapsto> JStr (render (recommended_action s)),
      ''decision_gate'' \<mapsto> JStr (decision_gate s),
      ''failure_taxonomy'' \<mapsto>
        JObj [''class'' \<mapsto> JStr (fclass (failure_taxonomy s)),
              ''description'' \<mapsto> JStr (render (description (failure_taxonomy s)))],
      ''provenance'' \<mapsto>
        JObj [''model_version'' \<mapsto> JStr (model_version (provenance s)),
              ''seed'' \<mapsto> JNum (of_int (seed (provenance s))),
              ''recycles'' \<mapsto> JNum (of_int (recycles (provenance s))),
              ''stub_output'' \<mapsto> JBool (stub_output (provenance s))]]"

subsection \<open>The batch loop of the generator\<close>

text \<open>
  The loop of \<^verbatim>\<open>main\<close> over the targets of the manifest. The file layer, the clock and
  the random generator are inputs: a job is a target of the manifest together with the
  outcome of loading its prediction and its ground truth (what was loaded, or the
  exception raised), the clock and the state of the generator when its report is built.
  The report that is validated and written is the one \<open>generate_sar\<close> returns for the job.
  The state holds what the loop changes: the success tally, the recorded errors, the
  files written and the error stream.
\<close>

record job =
  job_target :: target
  job_loaded :: "py_error + prediction \<times> point list option"
  job_now :: string
  job_rng :: rng

datatype line = Text string | WithError string py_error

record batch =
  success_count :: nat
  validation_errors :: "(string \<times> py_error) list"
  written :: "(string \<times> (string \<Rightarrow> json option)) list"
  stderr :: "line list"

definition cross_mark :: string where
  \<comment> \<open>U+2717 in UTF-8\<close>
  "cross_mark = [CHR 0xE2, CHR 0x9C, CHR 0x97]"

definition try_target :: "bool \<Rightarrow> job \<Rightarrow> batch \<Rightarrow> (py_error \<times> batch) + batch" where
  \<comment> \<open>the body of \<^verbatim>\<open>try\<close>: \<open>Inl\<close> carries the exception and the state reached when it
      was raised; the file is written before \<^verbatim>\<open>sar['decision_gate']\<close> is read for the
      progress line, and the tally is incremented after it\<close>
  "try_target strict_mode j st =
     (case job_loaded j of
        Inl e \<Rightarrow> Inl (e, st)
      | Inr (pred, ground_truth) \<Rightarrow>
          (case generate_sar (job_target j) pred ground_truth (job_now j) (job_rng j) of
             Inl e \<Rightarrow> Inl (e, st)
           | Inr (s, g) \<Rightarrow>
               (let sar = sar_dict s in
                case validate_sar sar strict_mode of
                  Inl e \<Rightarrow> Inl (e, st)
                | Inr warnings \<Rightarrow>
                    (let st1 = st\<lparr>stderr := stderr st @ map Text warnings,
                                   written := written st @ [(target_pdb_id (job_target j), sar)]\<rparr>
                     in if sar ''decision_gate'' = None
                        then Inl (KeyError ''decision_gate'', st1)
                        else Inr (st1\<lparr>success_count := success_count st1 + 1\<rparr>)))))"

definition handle_error :: "string \<Rightarrow> py_error \<Rightarrow> batch \<Rightarrow> batch" where
  \<comment> \<open>the two \<^verbatim>\<open>except\<close> clauses, up to the test of the mode\<close>
  "handle_error ident e st =
     (case e of
        SARValidationError msg \<Rightarrow>
          st\<lparr>stderr := stderr st @ [Text (cross_mark @ '' VALIDATION ERROR''), WithError ''  '' e],
              validation_errors := validation_errors st @ [(ident, e)]\<rparr>
      | _ \<Rightarrow>
          st\<lparr>stderr := stderr st @ [WithError (cross_mark @ '' ERROR: '') e],
              validation_errors := validation_errors st @ [(ident, e)]\<rparr>)"

fun process_targets :: "bool \<Rightarrow> job list \<Rightarrow> batch \<Rightarrow> batch \<times> nat option" where
  "process_targets strict_mode [] st = (st, None)"
| "process_targets strict_mode (j # rest) st =
     (case try_target strict_mode j st of
        Inr st1 \<Rightarrow> process_targets strict_mode rest st1
      | Inl (e, st1) \<Rightarrow>
          (let st2 = handle_error (target_pdb_id (job_target j)) e st1
           in if strict_mode then (st2, Some 1) else process_targets strict_mode rest st2))"

definition empty_batch :: batch where
  "empty_batch = \<lparr>success_count = 0, validation_errors = [], written = [], stderr = []\<rparr>"

definition main_generate :: "bool \<Rightarrow> job list \<Rightarrow> batch \<times> nat option" where
  \<comment> \<open>the exit status is \<open>Some 1\<close> for \<^verbatim>\<open>sys.exit(1)\<close>, \<open>None\<close> when \<^verbatim>\<open>main\<close> returns\<close>
  "main_generate strict_mode jobs =
     (case process_targets strict_mode jobs empty_batch of
        (st, Some code) \<Rightarrow> (st, Some code)
      | (st, None) \<Rightarrow>
          (st, if validation_errors st \<noteq> [] \<and> strict_mode then Some 1 else None))"

subsection \<open>Notions used in the properties\<close>

definition is_sar_incomplete :: "py_error + string list \<Rightarrow> bool" where
  \<comment> \<open>the outcome is a \<^verbatim>\<open>SARValidationError\<close> whose message starts with
      \<^verbatim>\<open>ERROR_SAR_INCOMPLETE\<close>\<close>
  "is_sar_incomplete r =
     (case r of Inl (SARValidationError msg) \<Rightarrow> take 20 msg = ''ERROR_SAR_INCOMPLETE''
      | _ \<Rightarrow> False)"

definition range_is_record :: "(string \<Rightarrow> json option) \<Rightarrow> bool" where
  \<comment> \<open>the value under \<^verbatim>\<open>expected_error_range\<close>, when there is one, is null or a dictionary\<close>
  "range_is_record sar =
     (case sar ''expected_error_range'' of
        None \<Rightarrow> True | Some JNull \<Rightarrow> True | Some (JObj d) \<Rightarrow> True | _ \<Rightarrow> False)"

definition rule_violated :: "(string \<Rightarrow> json option) \<Rightarrow> bool" where
  \<comment> \<open>the validation rule in the words of the specification: a required field or a
      subfield of the range is missing or null, or the gate is none of the three values\<close>
  "rule_violated sar =
     (absent sar ''decision_gate'' \<or> absent sar ''expected_error_range''
      \<or> (case sar ''expected_error_range'' of
            Some (JObj d) \<Rightarrow> absent d ''rmsd_min'' \<or> absent d ''rmsd_max'' \<or> absent d ''rationale''
          | _ \<Rightarrow> False)
      \<or> absent sar ''recommended_action''
      \<or> sar ''decision_gate''
           \<notin> {Some (JStr ''ACCEPT''), Some (JStr ''REVIEW''), Some (JStr ''REJECT'')})"

definition valid_sar :: "string \<Rightarrow> json option" where
  \<comment> \<open>a report with every required field, used as a concrete input\<close>
  "valid_sar =
     [''pdb_id'' \<mapsto> JStr ''1ABC'',
      ''expected_error_range'' \<mapsto>
         JObj [''rmsd_min'' \<mapsto> JNum 0.5, ''rmsd_max'' \<mapsto> JNum 2.0, ''rationale'' \<mapsto> JStr ''r''],
      ''recommended_action'' \<mapsto> JStr ''a'',
      ''decision_gate'' \<mapsto> JStr ''ACCEPT'']"


definition band_of :: "sar \<Rightarrow> string" where
  \<comment> \<open>the overall confidence band of a report\<close>
  "band_of s = overall_confidence (confidence_assessment s)"

definition band_values :: "string \<Rightarrow> sar list \<Rightarrow> real list" where
  \<comment> \<open>the observed global deviations of the reports of one band, in the order of the batch\<close>
  "band_values b sars = map (\<lambda>s. rmsd_global (metrics s)) (filter (\<lambda>s. band_of s = b) sars)"

definition populated :: "sar list \<Rightarrow> string list" where
  \<comment> \<open>the bands that hold at least one report\<close>
  "populated sars = filter (\<lambda>b. band_values b sars \<noteq> []) band_names"

definition sar_with :: "string \<Rightarrow> real \<Rightarrow> sar" where
  \<comment> \<open>a report of the given band and deviation, used as a concrete input\<close>
  "sar_with band rmsd =
     \<lparr>pdb_id = ''1ABC'', sar_version = ''1.0'', timestamp = ''2024-01-01T00:00:00Z'',
      metrics = \<lparr>rmsd_global = rmsd, rmsd_ligand_pocket = None, contact_map_overlap = 0.8,
                 plddt_mean = 80, pae_mean = 7\<rparr>,
      confidence_assessment = \<lparr>plddt_bin = band, pae_bin = band, overall_confidence = band\<rparr>,
      expected_error_range =
        determine_expected_error_range
          \<lparr>plddt_bin = band, pae_bin = band, overall_confidence = band\<rparr>,
      recommended_action = [],
      decision_gate = ''REVIEW'',
      failure_taxonomy = \<lparr>fclass = ''Unknown'', description = []\<rparr>,
      provenance = \<lparr>model_version = ''unknown'', seed = 42, recycles = 3, stub_output = True\<rparr>\<rparr>"

definition describes :: "real list \<Rightarrow> band_stats \<Rightarrow> bool" where
  \<comment> \<open>the entry in the words of the specification: sample count, mean, population
      standard deviation, minimum, maximum and median of the values\<close>
  "describes vs e =
     (n_samples e = length vs
      \<and> rmsd_mean e * real (length vs) = sum_list vs
      \<and> 0 \<le> rmsd_std e
      \<and> (rmsd_std e)\<^sup>2 * real (length vs) = (\<Sum>x\<leftarrow>vs. (x - rmsd_mean e)\<^sup>2)
      \<and> band_rmsd_min e = Min (set vs)
      \<and> band_rmsd_max e = Max (set vs)
      \<and> rmsd_median e =
          (if odd (length vs) then sort vs ! (length vs div 2)
           else (sort vs ! (length vs div 2 - 1) + sort vs ! (length vs div 2)) / 2))"

definition unit_draws :: "rng \<Rightarrow> bool" where
  \<comment> \<open>every draw lies in the unit interval\<close>
  "unit_draws g = (\<forall>n. 0 \<le> draws g n \<and> draws g n \<le> 1)"

definition decision_part ::
  "sar \<Rightarrow> string \<times> string \<times> real \<times> real \<times> real \<times> confidence \<times> error_range
          \<times> failure_taxonomy \<times> string \<times> fstring \<times> provenance" where
  \<comment> \<open>a report without its timestamp, its contact-map overlap and its ligand-pocket
      deviation\<close>
  "decision_part s =
     (pdb_id s, sar_version s, rmsd_global (metrics s), plddt_mean (metrics s),
      pae_mean (metrics s), confidence_assessment s, expected_error_range s,
      failure_taxonomy s, decision_gate s, recommended_action s, provenance s)"

definition const_rng :: "real \<Rightarrow> rng" where
  \<comment> \<open>a generator whose draws are all the same, used as a concrete input\<close>
  "const_rng u = \<lparr>draws = (\<lambda>n. u), drawn = 0\<rparr>"

definition target0 :: target where
  "target0 = \<lparr>target_pdb_id = ''1ABC'', target_ligand_present = Some False\<rparr>"

definition prediction0 :: prediction where
  "prediction0 =
     \<lparr>plddt = [95], pae = [[3]], coordinates = [(0, 0, 0)], pred_model_version = None,
      pred_seed = Some 42, pred_recycles = Some 3, pred_stub_output = Some True\<rparr>"




section \<open>Properties\<close>

subsection \<open>The decision gate\<close>

text \<open>
  C1. The rules of \<open>determine_decision_gate\<close> are applied in order. For every deviation,
  every expected range with non-negative bounds, every failure class and every confidence
  assessment: the gate is ACCEPT if and only if the deviation is at most the upper bound;
  else it is REJECT whenever the class is Class A or Class C or the deviation exceeds twice
  the upper bound, which then is the only way to REJECT; it is REVIEW otherwise; and
  exactly one of the three gate values results, so that ACCEPT and REJECT exclude each
  other. With the class that \<open>classify_failure\<close> assigns to the same deviation and range,
  which is the class \<open>generate_sar\<close> passes, the gate is REJECT whenever the class is
  Class A or Class C or the deviation exceeds twice the upper bound, with no further
  condition.
\<close>

theorem decision_gate_rule:
  fixes d :: real and r fc c lig p e lp
  assumes "0 \<le> rmsd_min r" and "0 \<le> rmsd_max r"
  defines "g \<equiv> determine_decision_gate d r fc c"
  defines "k \<equiv> fclass (classify_failure d lig p e r lp)"
  defines "h \<equiv> determine_decision_gate d r k c"
  shows "(g = ''ACCEPT'' \<longleftrightarrow> d \<le> rmsd_max r)
       \<and> (g = ''REJECT'' \<longleftrightarrow>
            d > rmsd_max r \<and> (fc = ''Class A'' \<or> fc = ''Class C'' \<or> d > 2 * rmsd_max r))
       \<and> (d > 2 * rmsd_max r \<longrightarrow> g = ''REJECT'')
       \<and> (g = ''REVIEW'' \<longleftrightarrow> g \<noteq> ''ACCEPT'' \<and> g \<noteq> ''REJECT'')
       \<and> g \<in> {''ACCEPT'', ''REVIEW'', ''REJECT''}
       \<and> (h = ''ACCEPT'' \<longleftrightarrow> d \<le> rmsd_max r)
       \<and> (h = ''REJECT'' \<longleftrightarrow> k = ''Class A'' \<or> k = ''Class C'' \<or> d > 2 * rmsd_max r)
       \<and> (h = ''REVIEW'' \<longleftrightarrow>
            \<not> d \<le> rmsd_max r \<and> \<not> (k = ''Class A'' \<or> k = ''Class C'' \<or> d > 2 * rmsd_max r))
       \<and> h \<in> {''ACCEPT'', ''REVIEW'', ''REJECT''}"
proof -
  have general: "(determine_decision_gate d r x c = ''ACCEPT'' \<longleftrightarrow> d \<le> rmsd_max r)
       \<and> (determine_decision_gate d r x c = ''REJECT'' \<longleftrightarrow>
            d > rmsd_max r \<and> (x = ''Class A'' \<or> x = ''Class C'' \<or> d > 2 * rmsd_max r))
       \<and> (d > 2 * rmsd_max r \<longrightarrow> determine_decision_gate d r x c = ''REJECT'')
       \<and> (determine_decision_gate d r x c = ''REVIEW'' \<longleftrightarrow>
            determine_decision_gate d r x c \<noteq> ''ACCEPT''
            \<and> determine_decision_gate d r x c \<noteq> ''REJECT'')
       \<and> determine_decision_gate d r x c \<in> {''ACCEPT'', ''REVIEW'', ''REJECT''}" for x
    using assms(2) by (auto simp: determine_decision_gate_def Let_def mult.commute)
  have outside: "k = ''Class A'' \<or> k = ''Class C'' \<longrightarrow> d > rmsd_max r"
    unfolding k_def by (auto simp: classify_failure_def Let_def split: if_splits)
  have twice: "d > 2 * rmsd_max r \<longrightarrow> d > rmsd_max r"
    using assms(2) by simp
  from general [of fc] general [of k] outside twice show ?thesis
    unfolding g_def h_def by blast
qed

theorem decision_gate_rule_witness:
  "0 \<le> rmsd_min \<lparr>rmsd_min = 0.5, rmsd_max = 2.0, rationale = ''r''\<rparr>
   \<and> 0 \<le> rmsd_max \<lparr>rmsd_min = 0.5, rmsd_max = 2.0, rationale = ''r''\<rparr>
   \<and> determine_decision_gate 5 \<lparr>rmsd_min = 0.5, rmsd_max = 2.0, rationale = ''r''\<rparr> ''Unknown''
        \<lparr>plddt_bin = ''high'', pae_bin = ''high'', overall_confidence = ''high''\<rparr> = ''REJECT''"
proof -
  let ?r = "\<lparr>rmsd_min = 0.5, rmsd_max = 2.0, rationale = ''r''\<rparr>"
  let ?c = "\<lparr>plddt_bin = ''high'', pae_bin = ''high'', overall_confidence = ''high''\<rparr>"
  have h: "0 \<le> rmsd_min ?r" "0 \<le> rmsd_max ?r" by simp_all
  note rule = decision_gate_rule [where r = ?r and d = 5 and fc = "''Unknown''" and c = ?c, OF h]
  from rule [THEN conjunct2, THEN conjunct2, THEN conjunct1]
  have "determine_decision_gate 5 ?r ''Unknown'' ?c = ''REJECT''" by simp
  with h show ?thesis by simp
qed

subsection \<open>Confidence bands\<close>

text \<open>
  C2. For every confidence-score mean and error-estimate mean, the overall band of
  \<open>classify_confidence\<close> is one of high, medium and low; it is low whenever one of the two
  individual bands is low; it is high exactly when both individual bands are high, which
  is exactly when the score exceeds 90 and the error estimate is below 5; and it is medium
  in all other cases. The function is total.
\<close>

theorem classify_confidence_bands:
  fixes p e :: real
  defines "c \<equiv> classify_confidence p e"
  shows "overall_confidence c \<in> {''high'', ''medium'', ''low''}
       \<and> (plddt_bin c = ''low'' \<or> pae_bin c = ''low'' \<longrightarrow> overall_confidence c = ''low'')
       \<and> (overall_confidence c = ''high'' \<longleftrightarrow> plddt_bin c = ''high'' \<and> pae_bin c = ''high'')
       \<and> (plddt_bin c = ''high'' \<and> pae_bin c = ''high'' \<longleftrightarrow> p > 90 \<and> e < 5)
       \<and> (overall_confidence c = ''medium'' \<longleftrightarrow>
            \<not> (plddt_bin c = ''high'' \<and> pae_bin c = ''high'')
            \<and> \<not> (plddt_bin c = ''low'' \<or> pae_bin c = ''low''))"
  unfolding c_def by (simp add: classify_confidence_def Let_def)

theorem classify_confidence_bands_witness:
  "pae_bin (classify_confidence 95 12) = ''low''
   \<and> overall_confidence (classify_confidence 95 12) = ''low''"
proof -
  have low: "pae_bin (classify_confidence 95 12) = ''low''"
    by (simp add: classify_confidence_def Let_def)
  with classify_confidence_bands [of 95 12] show ?thesis by simp
qed

subsection \<open>The expected error range\<close>

text \<open>
  C4. \<open>determine_expected_error_range\<close> is a function of the overall band alone, and on
  the three bands it is the fixed table: high gives [0.5, 2.0], medium gives [1.5, 4.0],
  low gives [3.0, 8.0], each with the rationale that cites its confidence level; the two
  individual bands of the assessment have no influence on the result.
\<close>

theorem error_range_lookup:
  "determine_expected_error_range \<lparr>plddt_bin = p, pae_bin = q, overall_confidence = ''high''\<rparr>
     = \<lparr>rmsd_min = 0.5, rmsd_max = 2.0,
        rationale = ''High confidence (pLDDT>90, PAE<5) suggests low expected error''\<rparr>
   \<and> determine_expected_error_range \<lparr>plddt_bin = p, pae_bin = q, overall_confidence = ''medium''\<rparr>
     = \<lparr>rmsd_min = 1.5, rmsd_max = 4.0,
        rationale = ''Medium confidence suggests moderate expected error range''\<rparr>
   \<and> determine_expected_error_range \<lparr>plddt_bin = p, pae_bin = q, overall_confidence = ''low''\<rparr>
     = \<lparr>rmsd_min = 3.0, rmsd_max = 8.0,
        rationale = ''Low confidence (pLDDT<70 or PAE>10) suggests high expected error''\<rparr>"
  by (simp add: determine_expected_error_range_def)

text \<open>
  C10. For every assessment whose overall band is neither high nor medium, be it low or a
  name that is no band at all, \<open>determine_expected_error_range\<close> returns the low-confidence
  range [3.0, 8.0] with the low-confidence rationale; no input makes it fail.
\<close>

theorem error_range_other_band:
  "overall_confidence c \<noteq> ''high'' \<Longrightarrow> overall_confidence c \<noteq> ''medium'' \<Longrightarrow>
   determine_expected_error_range c =
     \<lparr>rmsd_min = 3.0, rmsd_max = 8.0,
      rationale = ''Low confidence (pLDDT<70 or PAE>10) suggests high expected error''\<rparr>"
  by (simp add: determine_expected_error_range_def)

theorem error_range_other_band_witness:
  "determine_expected_error_range
     \<lparr>plddt_bin = ''high'', pae_bin = ''high'', overall_confidence = ''very high''\<rparr> =
     \<lparr>rmsd_min = 3.0, rmsd_max = 8.0,
      rationale = ''Low confidence (pLDDT<70 or PAE>10) suggests high expected error''\<rparr>"
  using error_range_other_band
    [of "\<lparr>plddt_bin = ''high'', pae_bin = ''high'', overall_confidence = ''very high''\<rparr>"]
  by simp

subsection \<open>The failure taxonomy\<close>

text \<open>
  C3. Whenever the observed global deviation is at most the upper bound of the expected
  range, equality included, \<open>classify_failure\<close> returns the class N/A, whatever the ligand
  flag, the ligand-pocket deviation and the two confidence means are.
\<close>

theorem classify_failure_within_range:
  "d \<le> rmsd_max r \<Longrightarrow> fclass (classify_failure d lig p e r lp) = ''N/A''"
  by (simp add: classify_failure_def Let_def)

theorem classify_failure_within_range_witness:
  "fclass (classify_failure 2 (Some 9) 95 3
             \<lparr>rmsd_min = 0.5, rmsd_max = 2.0, rationale = ''r''\<rparr> True) = ''N/A''"
  using classify_failure_within_range
    [of 2 "\<lparr>rmsd_min = 0.5, rmsd_max = 2.0, rationale = ''r''\<rparr>" "Some 9" 95 3 True]
  by simp

subsection \<open>End to end\<close>

text \<open>
  C9. With confidence-score mean 95, error-estimate mean 3 and observed global deviation
  5.0, whatever the ligand data: the overall band is high, the expected range is
  [0.5, 2.0], 5.0 exceeds 1.5 times 2.0, the failure class is Class A and the gate, computed
  from that class, is REJECT.
\<close>

theorem scenario_B:
  fixes lig lp
  defines "c \<equiv> classify_confidence 95 3"
  defines "r \<equiv> determine_expected_error_range c"
  defines "t \<equiv> classify_failure 5.0 lig 95 3 r lp"
  shows "overall_confidence c = ''high'' \<and> rmsd_min r = 0.5 \<and> rmsd_max r = 2.0
       \<and> (5.0 :: real) > 1.5 * rmsd_max r
       \<and> fclass t = ''Class A''
       \<and> determine_decision_gate 5.0 r (fclass t) c = ''REJECT''"
  unfolding t_def r_def c_def
  by (simp add: classify_confidence_def determine_expected_error_range_def classify_failure_def
       determine_decision_gate_def Let_def)

subsection \<open>Validation\<close>

lemma check_subfields_record:
  "check_subfields (JObj d) fs =
     Inr (map (\<lambda>f. ''expected_error_range.'' @ f) (filter (absent d) fs))"
  by (induction fs) auto

lemma missing_fields_record:
  assumes "range_is_record sar"
  shows "\<exists>ms. missing_fields sar = Inr ms \<and> (ms \<noteq> [] \<longleftrightarrow> rule_violated sar)"
proof (cases "sar ''expected_error_range''")
  case None
  then show ?thesis
    by (simp add: missing_fields_def absent_def rule_violated_def required_fields_def)
next
  case (Some v)
  with assms consider "v = JNull" | d where "v = JObj d"
    by (auto simp: range_is_record_def split: json.splits)
  then show ?thesis
  proof cases
    case 1
    with Some show ?thesis
      by (simp add: missing_fields_def absent_def rule_violated_def required_fields_def)
  next
    case 2
    with Some show ?thesis
      by (auto simp: missing_fields_def absent_def rule_violated_def required_fields_def
            check_subfields_record)
  qed
qed

lemma incomplete_msg:
  "is_sar_incomplete
     (Inl (SARValidationError (''ERROR_SAR_INCOMPLETE: Missing required fields: '' @ m)))"
  by (simp add: is_sar_incomplete_def)

text \<open>
  C5. For a report whose expected error range, when present, is null or a dictionary: in
  strict mode \<open>validate_sar\<close> fails with an \<^verbatim>\<open>ERROR_SAR_INCOMPLETE\<close> error if and only if
  one of decision_gate, expected_error_range, its subfields rmsd_min, rmsd_max and
  rationale, or recommended_action is missing or null, or decision_gate is not one of
  ACCEPT, REVIEW and REJECT; otherwise it returns without output. In particular a report
  without decision_gate fails, and so does one with decision_gate = "MAYBE".
\<close>

theorem validate_sar_strict:
  assumes "range_is_record sar"
  shows "(is_sar_incomplete (validate_sar sar True) \<longleftrightarrow> rule_violated sar)
       \<and> (\<not> rule_violated sar \<longrightarrow> validate_sar sar True = Inr [])
       \<and> (sar ''decision_gate'' = None \<longrightarrow> is_sar_incomplete (validate_sar sar True))
       \<and> (sar ''decision_gate'' = Some (JStr ''MAYBE'')
            \<longrightarrow> is_sar_incomplete (validate_sar sar True))"
proof -
  from missing_fields_record [OF assms] obtain ms
    where ms: "missing_fields sar = Inr ms" and iff: "ms \<noteq> [] \<longleftrightarrow> rule_violated sar"
    by blast
  have a: "is_sar_incomplete (validate_sar sar True) \<longleftrightarrow> rule_violated sar"
    using ms iff incomplete_msg by (auto simp: validate_sar_def is_sar_incomplete_def)
  have b: "\<not> rule_violated sar \<longrightarrow> validate_sar sar True = Inr []"
    using ms iff by (simp add: validate_sar_def)
  have c: "sar ''decision_gate'' = None \<longrightarrow> rule_violated sar"
    by (simp add: rule_violated_def absent_def)
  have d: "sar ''decision_gate'' = Some (JStr ''MAYBE'') \<longrightarrow> rule_violated sar"
    by (simp add: rule_violated_def)
  from a b c d show ?thesis by blast
qed

theorem validate_sar_strict_witness:
  "range_is_record (valid_sar(''decision_gate'' \<mapsto> JStr ''MAYBE''))
   \<and> is_sar_incomplete (validate_sar (valid_sar(''decision_gate'' \<mapsto> JStr ''MAYBE'')) True)"
proof -
  let ?s = "valid_sar(''decision_gate'' \<mapsto> JStr ''MAYBE'')"
  have h: "range_is_record ?s"
    by (simp add: range_is_record_def valid_sar_def)
  from validate_sar_strict [OF h]
  have "?s ''decision_gate'' = Some (JStr ''MAYBE'') \<longrightarrow> is_sar_incomplete (validate_sar ?s True)"
    by blast
  with h show ?thesis by simp
qed

subsection \<open>Calibration\<close>

lemma group_by_confidence_values:
  assumes "\<forall>s \<in> set sars. band_of s \<in> dom bins"
  shows "group_by_confidence sars bins =
           Inr (\<lambda>b. map_option (\<lambda>vs. vs @ band_values b sars) (bins b))"
  using assms
proof (induction sars arbitrary: bins)
  case Nil
  show ?case by (simp add: band_values_def fun_eq_iff option.map_ident)
next
  case (Cons s rest)
  from Cons.prems obtain vs where vs: "bins (band_of s) = Some vs" by auto
  let ?bins = "bins(band_of s \<mapsto> vs @ [rmsd_global (metrics s)])"
  have "\<forall>t \<in> set rest. band_of t \<in> dom ?bins" using Cons.prems by auto
  from Cons.IH [OF this]
  have ih: "group_by_confidence rest ?bins =
              Inr (\<lambda>b. map_option (\<lambda>ws. ws @ band_values b rest) (?bins b))" .
  have step: "group_by_confidence (s # rest) bins = group_by_confidence rest ?bins"
    using vs by (simp add: band_of_def Let_def)
  have eq: "(\<lambda>b. map_option (\<lambda>ws. ws @ band_values b rest) (?bins b)) =
            (\<lambda>b. map_option (\<lambda>ws. ws @ band_values b (s # rest)) (bins b))"
    using vs by (auto simp: fun_eq_iff band_values_def)
  show ?case by (simp only: step ih eq)
qed

lemma group_by_confidence_initial:
  assumes "\<forall>s \<in> set sars. band_of s \<in> set band_names"
  shows "group_by_confidence sars [''high'' \<mapsto> [], ''medium'' \<mapsto> [], ''low'' \<mapsto> []] =
           Inr (\<lambda>b. if b \<in> set band_names then Some (band_values b sars) else None)"
proof -
  have "\<forall>s \<in> set sars. band_of s \<in> dom [''high'' \<mapsto> [], ''medium'' \<mapsto> [], ''low'' \<mapsto> []]"
    using assms by (auto simp: band_names_def)
  from group_by_confidence_values [OF this] show ?thesis
    by (auto simp: fun_eq_iff band_names_def)
qed

lemma bin_statistics_bands:
  "bin_statistics [(''high'', h), (''medium'', m), (''low'', l)] (Map.empty, 0) =
     ((\<lambda>b. if b = ''high'' \<and> h \<noteq> [] then Some (statistics h)
            else if b = ''medium'' \<and> m \<noteq> [] then Some (statistics m)
            else if b = ''low'' \<and> l \<noteq> [] then Some (statistics l) else None),
      length (filter (\<lambda>vs. vs \<noteq> []) [h, m, l]))"
  by (auto simp: fun_eq_iff)

lemma calibration_explicit:
  assumes "\<forall>s \<in> set sars. band_of s \<in> set band_names"
  shows "\<exists>rep log.
           generate_calibration_report sars now = Inr (rep, log, 3 \<le> length (populated sars))
         \<and> calibration_data rep =
             (\<lambda>b. if b \<in> set (populated sars) then Some (statistics (band_values b sars)) else None)
         \<and> confidence_bins rep = length (populated sars)
         \<and> total_targets rep = length sars
         \<and> (log = [] \<longleftrightarrow> 3 \<le> length (populated sars))"
  unfolding generate_calibration_report_def group_by_confidence_initial [OF assms]
  by (simp add: band_names_def bin_statistics_bands populated_def fun_eq_iff)


lemma dom_populated:
  "dom (\<lambda>b. if b \<in> set (populated sars) then Some (f b) else None) =
     {b \<in> set band_names. band_values b sars \<noteq> []}"
  by (auto simp: populated_def dom_def)

lemma card_populated: "card {b \<in> set band_names. band_values b sars \<noteq> []} = length (populated sars)"
proof -
  have "distinct (populated sars)" by (simp add: populated_def band_names_def)
  from distinct_card [OF this] show ?thesis by (simp add: populated_def)
qed

lemma populated_all: "3 \<le> length (populated sars) \<longleftrightarrow> (\<forall>b \<in> set band_names. band_values b sars \<noteq> [])"
  by (simp add: populated_def band_names_def)

lemma band_values_single:
  assumes "sars \<noteq> []" and "\<forall>s \<in> set sars. band_of s = b"
  shows "band_values c sars \<noteq> [] \<longleftrightarrow> c = b"
proof -
  from assms(1) obtain s where s: "s \<in> set sars" by (cases sars) auto
  show ?thesis using assms(2) s by (auto simp: band_values_def filter_empty_conv)
qed

lemma np_median_bounds:
  assumes "vs \<noteq> []"
  shows "Min (set vs) \<le> np_median vs \<and> np_median vs \<le> Max (set vs)"
proof -
  let ?s = "sort vs" and ?n = "length vs"
  have n: "0 < ?n" using assms by simp
  have bound: "Min (set vs) \<le> ?s ! i \<and> ?s ! i \<le> Max (set vs)" if "i < ?n" for i
  proof -
    from that have "i < length ?s" by simp
    then have "?s ! i \<in> set ?s" by (rule nth_mem)
    then have "?s ! i \<in> set vs" by simp
    then show ?thesis by simp
  qed
  have a: "?n div 2 < ?n" using n by simp
  have b: "?n div 2 - 1 < ?n" using n by arith
  from bound [OF a] bound [OF b] show ?thesis
    by (auto simp: np_median_def Let_def)
qed

lemma statistics_describes:
  assumes "vs \<noteq> []"
  shows "describes vs (statistics vs)"
proof -
  have n: "real (length vs) \<noteq> 0" using assms by simp
  have nonneg: "0 \<le> np_mean (map (\<lambda>x. (x - np_mean vs)\<^sup>2) vs)"
    unfolding np_mean_def by (intro divide_nonneg_nonneg sum_list_nonneg) auto
  have std: "(np_std vs)\<^sup>2 * real (length vs) = (\<Sum>x\<leftarrow>vs. (x - np_mean vs)\<^sup>2)"
    unfolding np_std_def real_sqrt_pow2 [OF nonneg] using n by (simp add: np_mean_def)
  have pos: "0 \<le> np_std vs"
    unfolding np_std_def using nonneg by simp
  have mean: "np_mean vs * real (length vs) = sum_list vs"
    using n by (simp add: np_mean_def)
  show ?thesis
    using std pos mean
    by (simp add: describes_def statistics_def np_min_def np_max_def np_median_def Let_def)
qed

text \<open>
  C7. For every batch of reports whose bands are among high, medium and low, the
  calibration report is produced, and it has an entry for exactly the bands that hold at
  least one report; the entry of a band is made of the sample count, mean, population
  standard deviation, minimum, maximum and median of the observed global deviations of
  that band; the number of bins reported is the number of entries; the pass signal is true
  if and only if there are at least 3 entries, and the entries are the same whether it is
  true or false; and when all reports of a non-empty batch are in one band, the pass signal
  is false and there is exactly 1 entry, for that band.
\<close>

theorem calibration_report_bands:
  assumes "\<forall>s \<in> set sars. band_of s \<in> set band_names"
  shows "\<exists>rep log pass.
           generate_calibration_report sars now = Inr (rep, log, pass)
         \<and> dom (calibration_data rep) = {b \<in> set band_names. band_values b sars \<noteq> []}
         \<and> (\<forall>b \<in> dom (calibration_data rep).
               calibration_data rep b = Some (statistics (band_values b sars))
             \<and> describes (band_values b sars) (statistics (band_values b sars)))
         \<and> confidence_bins rep = card (dom (calibration_data rep))
         \<and> (pass \<longleftrightarrow> 3 \<le> card (dom (calibration_data rep)))
         \<and> (\<forall>b. sars \<noteq> [] \<and> (\<forall>s \<in> set sars. band_of s = b) \<longrightarrow>
                \<not> pass \<and> dom (calibration_data rep) = {b} \<and> confidence_bins rep = 1)"
proof -
  from calibration_explicit [OF assms, of now] obtain rep log where
    run: "generate_calibration_report sars now = Inr (rep, log, 3 \<le> length (populated sars))"
    and data: "calibration_data rep =
             (\<lambda>b. if b \<in> set (populated sars) then Some (statistics (band_values b sars)) else None)"
    and bins: "confidence_bins rep = length (populated sars)"
    by blast
  have d: "dom (calibration_data rep) = {b \<in> set band_names. band_values b sars \<noteq> []}"
    unfolding data by (rule dom_populated)
  have e: "\<forall>b \<in> dom (calibration_data rep).
               calibration_data rep b = Some (statistics (band_values b sars))
             \<and> describes (band_values b sars) (statistics (band_values b sars))"
  proof
    fix b assume b: "b \<in> dom (calibration_data rep)"
    with d have "band_values b sars \<noteq> []" by simp
    then have "describes (band_values b sars) (statistics (band_values b sars))"
      by (rule statistics_describes)
    moreover from b have "calibration_data rep b = Some (statistics (band_values b sars))"
      unfolding data by (auto split: if_splits)
    ultimately show "calibration_data rep b = Some (statistics (band_values b sars))
             \<and> describes (band_values b sars) (statistics (band_values b sars))" by simp
  qed
  have c: "card (dom (calibration_data rep)) = length (populated sars)"
    unfolding d by (rule card_populated)
  have one: "\<not> 3 \<le> length (populated sars) \<and> dom (calibration_data rep) = {b}
             \<and> confidence_bins rep = 1"
    if ne: "sars \<noteq> []" and all: "\<forall>s \<in> set sars. band_of s = b" for b
  proof -
    from ne obtain s where "s \<in> set sars" by (cases sars) auto
    with all assms have b: "b \<in> set band_names" by auto
    have dom: "dom (calibration_data rep) = {b}"
      unfolding d using band_values_single [OF ne all] b by auto
    with c have "length (populated sars) = 1" by simp
    with dom bins show ?thesis by simp
  qed
  have one': "\<forall>b. sars \<noteq> [] \<and> (\<forall>s \<in> set sars. band_of s = b) \<longrightarrow>
                \<not> 3 \<le> length (populated sars) \<and> dom (calibration_data rep) = {b}
                \<and> confidence_bins rep = 1"
    using one by blast
  have p: "(3 \<le> length (populated sars)) \<longleftrightarrow> 3 \<le> card (dom (calibration_data rep))"
    using c by simp
  have b': "confidence_bins rep = card (dom (calibration_data rep))"
    using c bins by simp
  from run d e b' p one' show ?thesis by blast
qed

theorem calibration_report_bands_witness:
  "\<exists>rep log. generate_calibration_report [sar_with ''high'' 1, sar_with ''high'' 3]
                ''2024-01-01T00:00:00'' = Inr (rep, log, False)
      \<and> dom (calibration_data rep) = {''high''} \<and> confidence_bins rep = 1"
proof -
  let ?sars = "[sar_with ''high'' 1, sar_with ''high'' 3]"
  have h: "\<forall>s \<in> set ?sars. band_of s \<in> set band_names"
    by (simp add: band_of_def sar_with_def band_names_def)
  have one: "?sars \<noteq> [] \<and> (\<forall>s \<in> set ?sars. band_of s = ''high'')"
    by (simp add: band_of_def sar_with_def)
  from calibration_report_bands [OF h, of "''2024-01-01T00:00:00''"]
  obtain rep log pass where
    run: "generate_calibration_report ?sars ''2024-01-01T00:00:00'' = Inr (rep, log, pass)"
    and single: "\<forall>b. ?sars \<noteq> [] \<and> (\<forall>s \<in> set ?sars. band_of s = b) \<longrightarrow>
                \<not> pass \<and> dom (calibration_data rep) = {b} \<and> confidence_bins rep = 1"
    by (elim exE conjE) 
  have "\<not> pass \<and> dom (calibration_data rep) = {''high''} \<and> confidence_bins rep = 1"
    by (rule single [THEN spec, THEN mp, OF one])
  with run have "generate_calibration_report ?sars ''2024-01-01T00:00:00'' = Inr (rep, log, False)
         \<and> dom (calibration_data rep) = {''high''} \<and> confidence_bins rep = 1"
    by simp
  then show ?thesis by (intro exI)
qed

subsection \<open>Two runs of the generator\<close>

lemma classify_failure_no_B:
  assumes "lp \<Longrightarrow> (case lig of Some l \<Rightarrow> l \<le> r * 1.5 | None \<Rightarrow> True)"
  shows "classify_failure r lig p e rg lp = classify_failure r None p e rg False"
  using assms by (cases lp; cases lig) (auto simp: classify_failure_def Let_def)

lemma np_mean_nonneg: "(\<forall>x \<in> set xs. 0 \<le> x) \<Longrightarrow> 0 \<le> np_mean xs"
  unfolding np_mean_def by (intro divide_nonneg_nonneg sum_list_nonneg) auto

lemma sq_dist_nonneg: "0 \<le> sq_dist p q"
  by (cases p; cases q) (auto simp: sq_dist_def)

lemma compute_rmsd_stub_given:
  "compute_rmsd_stub pc (Some gt) g = Inr (r, g') \<Longrightarrow> 0 \<le> r \<and> g' = g"
  by (auto simp: compute_rmsd_stub_def Let_def np_mean_nonneg sq_dist_nonneg
        split: if_splits intro!: np_mean_nonneg)

lemma compute_rmsd_stub_rng:
  "compute_rmsd_stub pc (Some gt) g =
     (case compute_rmsd_stub pc (Some gt) g0 of Inl e \<Rightarrow> Inl e | Inr (r, u) \<Rightarrow> Inr (r, g))"
  by (simp add: compute_rmsd_stub_def Let_def)

lemma ligand_draw_bound:
  assumes "unit_draws g" and "0 \<le> r"
  shows "r * fst (uniform 0.8 1.5 g) \<le> r * 1.5"
proof -
  from assms(1) have "draws g (drawn g) \<le> 1" by (simp add: unit_draws_def)
  then have "fst (uniform 0.8 1.5 g) \<le> 1.5" by (simp add: uniform_def)
  then show ?thesis using assms(2) by (rule mult_left_mono)
qed

lemma generate_sar_reference:
  assumes "unit_draws g"
  shows "map_sum id (\<lambda>x. decision_part (fst x)) (generate_sar tgt pred (Some gt) now g) =
         map_sum id (\<lambda>x. decision_part (fst x)) (generate_sar tgt pred (Some gt) [] (const_rng 0))"
proof (cases "plddt pred = [] \<or> concat (pae pred) = []")
  case True
  then show ?thesis by (simp add: generate_sar_def)
next
  case False
  then have ne: "plddt pred \<noteq> []" "concat (pae pred) \<noteq> []" by simp_all
  show ?thesis
  proof (cases "compute_rmsd_stub (coordinates pred) (Some gt) (const_rng 0)")
    case (Inl e)
    then have "compute_rmsd_stub (coordinates pred) (Some gt) g = Inl e"
      by (subst compute_rmsd_stub_rng [where ?g0.0 = "const_rng 0"]) simp
    with Inl show ?thesis by (simp add: generate_sar_def Let_def ne del: concat_eq_Nil_conv)
  next
    case (Inr a)
    then obtain r u where ref: "compute_rmsd_stub (coordinates pred) (Some gt) (const_rng 0) = Inr (r, u)"
      by (cases a) auto
    then have here: "compute_rmsd_stub (coordinates pred) (Some gt) g = Inr (r, g)"
      by (subst compute_rmsd_stub_rng [where ?g0.0 = "const_rng 0"]) simp
    from compute_rmsd_stub_given [OF ref] have r: "0 \<le> r" and u: "u = const_rng 0" by simp_all
    have b1: "r * fst (uniform 0.8 1.5 g) \<le> r * 1.5"
      using assms r by (rule ligand_draw_bound)
    have "unit_draws (const_rng 0)" by (simp add: unit_draws_def const_rng_def)
    then have b2: "r * fst (uniform 0.8 1.5 (const_rng 0)) \<le> r * 1.5"
      using r by (rule ligand_draw_bound)
    have c1: "classify_failure r (Some (r * fst (uniform (4 / 5) (3 / 2) g))) p e rg True
              = classify_failure r None p e rg False" for p e rg
      by (rule classify_failure_no_B) (insert b1, simp)
    have c2: "classify_failure r (Some (r * fst (uniform (4 / 5) (3 / 2) (const_rng 0)))) p e rg True
              = classify_failure r None p e rg False" for p e rg
      by (rule classify_failure_no_B) (insert b2, simp)
    show ?thesis
      by (simp add: generate_sar_def ref [unfolded u] here Let_def decision_part_def c1 c2 ne
            case_prod_beta split: option.splits del: concat_eq_Nil_conv)
  qed
qed


lemma generate_sar_returns:
  assumes "plddt pred \<noteq> []" and "concat (pae pred) \<noteq> []"
    and "coordinates pred \<noteq> []" and "gt \<noteq> []"
  shows "\<exists>s g'. generate_sar tgt pred (Some gt) now g = Inr (s, g')"
  using assms
  by (simp add: generate_sar_def compute_rmsd_stub_def Let_def case_prod_beta
        del: concat_eq_Nil_conv)

text \<open>
  C8 (as the code has it). When ground-truth coordinates are supplied, two runs of
  \<open>generate_sar\<close> on the same target, prediction and ground truth, with any two clocks
  and any two random generators drawing from the unit interval, either fail alike or
  produce reports that agree on the identifier, the version, the global deviation, the two
  confidence means, the confidence assessment, the expected error range, the failure
  taxonomy, the decision gate, the recommended action and the provenance; with non-empty
  inputs a report is produced. The timestamp, the contact-map overlap and the ligand-pocket
  deviation are read from the clock and drawn from the generator in each run.
\<close>

theorem generate_sar_deterministic_part:
  assumes "unit_draws g1" and "unit_draws g2"
  shows "map_sum id (\<lambda>x. decision_part (fst x)) (generate_sar tgt pred (Some gt) now1 g1) =
         map_sum id (\<lambda>x. decision_part (fst x)) (generate_sar tgt pred (Some gt) now2 g2)
       \<and> (plddt pred \<noteq> [] \<and> concat (pae pred) \<noteq> [] \<and> coordinates pred \<noteq> [] \<and> gt \<noteq> []
            \<longrightarrow> (\<exists>s g'. generate_sar tgt pred (Some gt) now1 g1 = Inr (s, g')))"
  using generate_sar_reference [OF assms(1), of tgt pred gt now1]
    generate_sar_reference [OF assms(2), of tgt pred gt now2]
    generate_sar_returns [of pred gt tgt now1 g1]
  by simp

theorem generate_sar_deterministic_part_witness:
  "unit_draws (const_rng 0) \<and> unit_draws (const_rng (1 / 2))
   \<and> map_sum id (\<lambda>x. decision_part (fst x))
        (generate_sar target0 prediction0 (Some [(0, 0, 0)]) ''2024-01-01T00:00:00'' (const_rng 0))
     = map_sum id (\<lambda>x. decision_part (fst x))
        (generate_sar target0 prediction0 (Some [(0, 0, 0)]) ''2024-01-01T00:00:01''
           (const_rng (1 / 2)))"
proof -
  have h: "unit_draws (const_rng 0)" "unit_draws (const_rng (1 / 2))"
    by (simp_all add: unit_draws_def const_rng_def)
  from generate_sar_deterministic_part [OF h, of target0 prediction0 "[(0, 0, 0)]"
      "''2024-01-01T00:00:00''" "''2024-01-01T00:00:01''"] h
  show ?thesis by simp
qed

lemma run_missing_gt:
  "decision_gate (fst (projr (generate_sar target0 prediction0 None now (const_rng u)))) =
     determine_decision_gate (3 / 2 + 3 * u) (determine_expected_error_range (classify_confidence 95 3))
       (fclass (classify_failure (3 / 2 + 3 * u) None 95 3
                  (determine_expected_error_range (classify_confidence 95 3)) False))
       (classify_confidence 95 3)"
  by (simp add: generate_sar_def compute_rmsd_stub_def uniform_def const_rng_def target0_def
        prediction0_def np_mean_def Let_def)

text \<open>
  C8 as stated fails: the same target, prediction and ground truth give reports with
  different timestamps when the clock differs, and without ground truth the global
  deviation is drawn at random, so that one draw gives the gate ACCEPT and another REJECT.
\<close>

theorem generate_sar_runs_differ:
  "timestamp (fst (projr (generate_sar target0 prediction0 (Some [(0, 0, 0)])
                            ''2024-01-01T00:00:00'' (const_rng 0))))
     \<noteq> timestamp (fst (projr (generate_sar target0 prediction0 (Some [(0, 0, 0)])
                            ''2024-01-01T00:00:01'' (const_rng 0))))
   \<and> decision_gate (fst (projr (generate_sar target0 prediction0 None
                            ''2024-01-01T00:00:00'' (const_rng 0)))) = ''ACCEPT''
   \<and> decision_gate (fst (projr (generate_sar target0 prediction0 None
                            ''2024-01-01T00:00:00'' (const_rng (9 / 10))))) = ''REJECT''"
proof -
  have t: "timestamp (fst (projr (generate_sar target0 prediction0 (Some [(0, 0, 0)]) now g)))
             = now @ ''Z''" for now g
    by (simp add: generate_sar_def compute_rmsd_stub_def prediction0_def Let_def case_prod_beta)
  show ?thesis
    by (simp add: t run_missing_gt classify_confidence_def determine_expected_error_range_def
          classify_failure_def determine_decision_gate_def Let_def)
qed

subsection \<open>Strict and lenient batches\<close>
















end
